theory Spec2Isabelle
  imports Main "HOL-Library.AList"
begin

section \<open>Python values\<close>

text \<open>
  A Tweet payload is a decoded JSON document. \<open>JNull\<close> is Python's \<open>None\<close>, a JSON object is
  a Python \<open>dict\<close> with string keys, kept as an association list in insertion order (the keys
  of a \<open>dict\<close> are distinct). Floating point numbers are left out: no accessor of
  \<open>tweet.py\<close> computes with one.
\<close>

datatype json =
    JNull
  | JBool bool
  | JInt int
  | JStr string
  | JList "json list"
  | JDict "(string \<times> json) list"

type_synonym pydict = "(string \<times> json) list"

text \<open>The exceptions that the modelled code can raise. \<open>NotATweetError\<close> carries its message.\<close>

datatype error =
    NotATweetError string
  | NotAvailableError
  | KeyError string
  | AttributeError
  | TypeError
  | ValueError
  | IndexError

text \<open>A \<open>datetime.datetime\<close> value (naive, whole seconds).\<close>

datatype datetime =
  Datetime (year: int) (month: int) (day: int) (hour: int) (minute: int) (second: int)

text \<open>
  \<open>class Tweet(dict)\<close>: an object that is a \<open>dict\<close> (\<open>items\<close>) and has instance attributes:
  \<open>original_format\<close>, unset (\<open>None\<close> here) until \<open>__init__\<close> assigns it, and the attributes in
  which the lazy properties keep their values (\<open>lazy_attrs\<close>). A value an accessor returns is
  a plain value, a \<open>datetime\<close> or a \<open>Tweet\<close>.
\<close>

datatype pyval = PJson json | PDatetime datetime | PTweet tweet
and tweet =
  TweetObj (original_format: "bool option") (items: pydict) (lazy_attrs: "(string \<times> pyval) list")

abbreviation PNone :: pyval where "PNone \<equiv> PJson JNull"

abbreviation PStr :: "string \<Rightarrow> pyval" where "PStr s \<equiv> PJson (JStr s)"

abbreviation PInt :: "int \<Rightarrow> pyval" where "PInt n \<equiv> PJson (JInt n)"

definition set_original_format :: "bool \<Rightarrow> tweet \<Rightarrow> tweet" where
  "set_original_format b self = TweetObj (Some b) (items self) (lazy_attrs self)"

definition set_items :: "pydict \<Rightarrow> tweet \<Rightarrow> tweet" where
  "set_items d self = TweetObj (original_format self) d (lazy_attrs self)"

definition set_lazy_attr :: "string \<Rightarrow> pyval \<Rightarrow> tweet \<Rightarrow> tweet" where
  "set_lazy_attr name v self =
     TweetObj (original_format self) (items self) (AList.update name v (lazy_attrs self))"

text \<open>A computation on a Tweet object: its result or the exception raised, and the object after.\<close>

type_synonym 'a accessor = "tweet \<Rightarrow> (error + 'a) \<times> tweet"

definition and_then :: "'a accessor \<Rightarrow> ('a \<Rightarrow> 'b accessor) \<Rightarrow> 'b accessor" where
  "and_then m f self = (case m self of (Inl e, self') \<Rightarrow> (Inl e, self') | (Inr x, self') \<Rightarrow> f x self')"

definition reading :: "(tweet \<Rightarrow> error + 'a) \<Rightarrow> 'a accessor" where
  "reading g self = (g self, self)"

subsection \<open>Builtins\<close>

text \<open>\<open>self[key]\<close>: \<open>KeyError\<close> when the key is missing.\<close>

definition getitem :: "tweet \<Rightarrow> string \<Rightarrow> error + json" where
  "getitem self k = (case map_of (items self) k of None \<Rightarrow> Inl (KeyError k) | Some v \<Rightarrow> Inr v)"

text \<open>\<open>dict.update(other)\<close> with a \<open>dict\<close>: \<open>self[k] = v\<close> for each item of \<open>other\<close>, in order.\<close>

definition dict_update :: "pydict \<Rightarrow> pydict \<Rightarrow> pydict" where
  "dict_update self other = fold (\<lambda>(k, v) acc. AList.update k v acc) other self"

text \<open>\<open>s.split(sep)\<close> for a separator of one character.\<close>

fun str_split :: "char \<Rightarrow> string \<Rightarrow> string list" where
  "str_split sep [] = [[]]"
| "str_split sep (c # cs) =
     (if c = sep then [] # str_split sep cs
      else (case str_split sep cs of [] \<Rightarrow> [[c]] | w # ws \<Rightarrow> (c # w) # ws))"

text \<open>\<open>xs[i]\<close> on a list: a negative index counts from the end, \<open>IndexError\<close> out of range.\<close>

definition list_getitem :: "'a list \<Rightarrow> int \<Rightarrow> error + 'a" where
  "list_getitem xs i =
     (if 0 \<le> i \<and> i < int (length xs) then Inr (xs ! nat i)
      else if i < 0 \<and> - int (length xs) \<le> i then Inr (xs ! nat (int (length xs) + i))
      else Inl IndexError)"

section \<open>The modules that \<open>tweet.py\<close> imports\<close>

text \<open>
  \<open>tweet_checking\<close>, \<open>getter_methods\<close>, \<open>lazy_property\<close> and \<open>tweet_parser_errors\<close> are not part
  of the sources at hand. Their functions are the fields of an environment: \<open>check_tweet\<close> is
  the classifier (\<open>True\<close> for the original format, \<open>False\<close> for activity streams, or an
  exception), a getter is a function of the Tweet it is given, and the three getters of
  \<open>tweet_embeds\<close> return the nested payload (a \<open>dict\<close>) or \<open>None\<close>. \<open>dict_str\<close> is \<open>str\<close> on a
  \<open>dict\<close>. The last five fields locate what the specification describes without naming a
  key: the repost and quote markers, the extended and the short text field, and the option
  labels of the poll substructure.
\<close>

type_synonym getter = "tweet \<Rightarrow> error + pyval"

record env =
  check_tweet :: "pydict \<Rightarrow> bool \<Rightarrow> error + bool"
  get_user_id :: getter
  get_screen_name :: getter
  get_name :: getter
  get_klout_score :: getter
  get_klout_profile :: getter
  get_klout_id :: getter
  get_klout_topics :: "tweet \<Rightarrow> string \<Rightarrow> error + pyval"
  get_text :: getter
  get_quote_or_rt_text :: getter
  get_all_text :: getter
  get_geo_coordinates :: getter
  get_profile_location :: getter
  get_tweet_links :: getter
  get_most_unrolled_urls :: getter
  get_user_mentions :: getter
  get_quoted_user :: getter
  get_quoted_mentions :: getter
  get_hashtags :: getter
  get_quote_tweet :: "tweet \<Rightarrow> error + pydict option"
  get_retweet :: "tweet \<Rightarrow> error + pydict option"
  get_embedded_tweet :: "tweet \<Rightarrow> error + pydict option"
  dict_str :: "pydict \<Rightarrow> string"
  repost_marker :: "pydict \<Rightarrow> bool"
  quote_marker :: "pydict \<Rightarrow> bool"
  extended_text :: "pydict \<Rightarrow> json option"
  short_text :: "pydict \<Rightarrow> json option"
  poll_labels :: "pydict \<Rightarrow> string list option"

text \<open>
  Modelled from the spec: the decorator \<open>lazy_property\<close> (module \<open>tweet_parser.lazy_property\<close>)
  is missing. Section 3 and 9 of the specification: the cache is a mapping from accessor
  name to computed result, kept apart from the raw mapping, populated on first read and
  written once per key; on a read, compute if empty, store, return. An exception of the
  body stores nothing.
\<close>

definition lazy_property :: "string \<Rightarrow> pyval accessor \<Rightarrow> pyval accessor" where
  "lazy_property name fn self =
     (case map_of (lazy_attrs self) name of
        Some v \<Rightarrow> (Inr v, self)
      | None \<Rightarrow>
          (case fn self of
             (Inl e, self') \<Rightarrow> (Inl e, self')
           | (Inr v, self') \<Rightarrow> (Inr v, set_lazy_attr name v self')))"

section \<open>\<open>class Tweet\<close>\<close>

subsection \<open>Construction\<close>

text \<open>The object that \<open>__init__\<close> receives: an empty \<open>dict\<close> with no attribute.\<close>

definition Tweet_new :: tweet where
  "Tweet_new = TweetObj None [] []"

text \<open>\<open>__init__\<close>: an exception of \<open>check_tweet\<close> leaves before anything is assigned.\<close>

definition Tweet_init :: "env \<Rightarrow> pydict \<Rightarrow> bool \<Rightarrow> unit accessor" where
  "Tweet_init E tweet_dict do_format_validation self =
     (case check_tweet E tweet_dict do_format_validation of
        Inl e \<Rightarrow> (Inl e, self)
      | Inr fmt \<Rightarrow>
          (let self1 = set_original_format fmt self;
               self2 = set_items (dict_update (items self1) tweet_dict) self1
           in (Inr (), self2)))"

text \<open>The call \<open>Tweet(tweet_dict, do_format_validation)\<close>: the object, or the exception.\<close>

definition Tweet :: "env \<Rightarrow> pydict \<Rightarrow> bool \<Rightarrow> error + tweet" where
  "Tweet E tweet_dict do_format_validation =
     (case Tweet_init E tweet_dict do_format_validation Tweet_new of
        (Inl e, _) \<Rightarrow> Inl e
      | (Inr _, self) \<Rightarrow> Inr self)"

subsection \<open>Identifier and timestamps\<close>

text \<open>\<open>def id(self)\<close>. \<open>split\<close> is a method of \<open>str\<close> only.\<close>

definition id_fn :: "pyval accessor" where
  "id_fn self =
     (case original_format self of
        None \<Rightarrow> (Inl AttributeError, self)
      | Some True \<Rightarrow> (map_sum (\<lambda>e. e) PJson (getitem self ''id_str''), self)
      | Some False \<Rightarrow>
          (case getitem self ''id'' of
             Inl e \<Rightarrow> (Inl e, self)
           | Inr (JStr s) \<Rightarrow> (map_sum (\<lambda>e. e) PStr (list_getitem (str_split (CHR '':'') s) (- 1)), self)
           | Inr _ \<Rightarrow> (Inl AttributeError, self)))"

definition Tweet_id :: "pyval accessor" where
  "Tweet_id = lazy_property ''id'' id_fn"

text \<open>The value of a string of decimal digits.\<close>

definition is_digit :: "char \<Rightarrow> bool" where
  "is_digit c = (48 \<le> (of_char c :: nat) \<and> (of_char c :: nat) \<le> 57)"

definition int_of_digits :: "string \<Rightarrow> int" where
  "int_of_digits s = foldl (\<lambda>n c. 10 * n + (of_char c - 48)) 0 s"

text \<open>
  Modelled from the spec: \<open>tweet_date.snowflake2utc\<close> is missing. Section 4.2: the
  identifier is a digit string; its numeric value shifted right by 22 bits gives the
  milliseconds since the custom epoch, 1288834974657 ms after the Unix epoch; add the
  offset and divide by 1000, truncating to whole seconds. The value of a digit string is
  not negative, so the shift is \<open>div 2 ^ 22\<close> and the truncation is \<open>div 1000\<close>. What is
  no string raises \<open>TypeError\<close>, another string \<open>ValueError\<close>.
\<close>

definition snowflake2utc :: "pyval \<Rightarrow> error + pyval" where
  "snowflake2utc sf =
     (case sf of
        PJson (JStr s) \<Rightarrow>
          (if s \<noteq> [] \<and> list_all is_digit s
           then Inr (PInt ((int_of_digits s div 2 ^ 22 + 1288834974657) div 1000))
           else Inl ValueError)
      | _ \<Rightarrow> Inl TypeError)"

text \<open>\<open>def created_at_seconds(self)\<close>\<close>

definition created_at_seconds_fn :: "pyval accessor" where
  "created_at_seconds_fn = and_then Tweet_id (\<lambda>i. reading (\<lambda>self. snowflake2utc i))"

definition created_at_seconds :: "pyval accessor" where
  "created_at_seconds = lazy_property ''created_at_seconds'' created_at_seconds_fn"

text \<open>
  \<open>datetime.datetime.utcfromtimestamp\<close> of the standard library, on an \<open>int\<close>: the day
  number since 1970-01-01 as a date of the proleptic Gregorian calendar, and the time of
  day. Years outside 1..9999 raise.
\<close>

definition civil_from_days :: "int \<Rightarrow> int \<times> int \<times> int" where
  "civil_from_days days =
     (let z = days + 719468;
          era = z div 146097;
          doe = z mod 146097;
          yoe = (doe - doe div 1460 + doe div 36524 - doe div 146096) div 365;
          doy = doe - (365 * yoe + yoe div 4 - yoe div 100);
          mp = (5 * doy + 2) div 153;
          d = doy - (153 * mp + 2) div 5 + 1;
          m = (if mp < 10 then mp + 3 else mp - 9);
          y = yoe + era * 400 + (if m \<le> 2 then 1 else 0)
      in (y, m, d))"

definition utcfromtimestamp :: "pyval \<Rightarrow> error + pyval" where
  "utcfromtimestamp ts =
     (case ts of
        PJson (JInt n) \<Rightarrow>
          (case civil_from_days (n div 86400) of
             (y, m, d) \<Rightarrow>
               (if y < 1 \<or> 9999 < y then Inl ValueError
                else Inr (PDatetime (Datetime y m d (n mod 86400 div 3600)
                                       (n mod 3600 div 60) (n mod 60)))))
      | _ \<Rightarrow> Inl TypeError)"

text \<open>\<open>def created_at_datetime(self)\<close>\<close>

definition created_at_datetime_fn :: "pyval accessor" where
  "created_at_datetime_fn = and_then created_at_seconds (\<lambda>s. reading (\<lambda>self. utcfromtimestamp s))"

definition created_at_datetime :: "pyval accessor" where
  "created_at_datetime = lazy_property ''created_at_datetime'' created_at_datetime_fn"

text \<open>
  \<open>datetime.strftime\<close> of the standard library, for the directives \<open>%Y\<close> (year), \<open>%m\<close>
  (month), \<open>%d\<close> (day of the month), \<open>%H\<close> (hour), \<open>%M\<close> (minute), \<open>%S\<close> (second), each
  but the year padded to two digits, and \<open>%%\<close>.
\<close>

fun show_nat :: "nat \<Rightarrow> string" where
  "show_nat n =
     (if n < 10 then [''0123456789'' ! n]
      else show_nat (n div 10) @ [''0123456789'' ! (n mod 10)])"

definition pad2 :: "int \<Rightarrow> string" where
  "pad2 n = (if n < 10 then CHR ''0'' # show_nat (nat n) else show_nat (nat n))"

definition strftime_directive :: "datetime \<Rightarrow> char \<Rightarrow> string" where
  "strftime_directive dt c =
     (if c = CHR ''Y'' then show_nat (nat (year dt))
      else if c = CHR ''m'' then pad2 (month dt)
      else if c = CHR ''d'' then pad2 (day dt)
      else if c = CHR ''H'' then pad2 (hour dt)
      else if c = CHR ''M'' then pad2 (minute dt)
      else if c = CHR ''S'' then pad2 (second dt)
      else if c = CHR ''%'' then ''%''
      else [CHR ''%'', c])"

fun strftime_format :: "datetime \<Rightarrow> string \<Rightarrow> string" where
  "strftime_format dt [] = []"
| "strftime_format dt [c] = [c]"
| "strftime_format dt (c # x # cs) =
     (if c = CHR ''%'' then strftime_directive dt x @ strftime_format dt cs
      else c # strftime_format dt (x # cs))"

definition strftime :: "pyval \<Rightarrow> string \<Rightarrow> error + pyval" where
  "strftime v fmt =
     (case v of PDatetime dt \<Rightarrow> Inr (PStr (strftime_format dt fmt)) | _ \<Rightarrow> Inl AttributeError)"

text \<open>\<open>def created_at_string(self)\<close>, with the format string of the source.\<close>

definition created_at_string_fn :: "pyval accessor" where
  "created_at_string_fn =
     and_then created_at_datetime (\<lambda>dt. reading (\<lambda>self. strftime dt ''%Y-%M-%dT%H:%M:%S.000Z''))"

definition created_at_string :: "pyval accessor" where
  "created_at_string = lazy_property ''created_at_string'' created_at_string_fn"

subsection \<open>Text\<close>

text \<open>
  Modelled from the spec: \<open>tweet_text.get_tweet_type\<close> is missing. Section 4.3: repost
  marker present gives \<open>retweet\<close>; quote marker present and no repost marker gives
  \<open>quote\<close>; neither gives \<open>tweet\<close>.
\<close>

definition get_tweet_type :: "env \<Rightarrow> getter" where
  "get_tweet_type E self =
     Inr (PStr (if repost_marker E (items self) then ''retweet''
                else if quote_marker E (items self) then ''quote''
                else ''tweet''))"

text \<open>
  Modelled from the spec: \<open>tweet_text.get_full_text\<close> is missing. Section 4.3: the
  untruncated/extended text field, preferring an extended-text field over a
  possibly-truncated short one when both exist. A payload with neither has no such key.
\<close>

definition get_full_text :: "env \<Rightarrow> getter" where
  "get_full_text E self =
     (case extended_text E (items self) of
        Some x \<Rightarrow> Inr (PJson x)
      | None \<Rightarrow>
          (case short_text E (items self) of
             Some x \<Rightarrow> Inr (PJson x)
           | None \<Rightarrow> Inl (KeyError ''text'')))"

text \<open>
  Modelled from the spec: \<open>tweet_text.get_poll_options\<close> is missing. Section 4.3: the list
  of option label strings of the poll substructure when present, else an empty list;
  \<open>NotAvailableError\<close> for the activity-streams variant.
\<close>

definition get_poll_options :: "env \<Rightarrow> getter" where
  "get_poll_options E self =
     (case original_format self of
        None \<Rightarrow> Inl AttributeError
      | Some False \<Rightarrow> Inl NotAvailableError
      | Some True \<Rightarrow>
          (case poll_labels E (items self) of
             Some labels \<Rightarrow> Inr (PJson (JList (map JStr labels)))
           | None \<Rightarrow> Inr (PJson (JList []))))"

text \<open>\<open>def text(self)\<close>, \<open>def tweet_type(self)\<close>\<close>

definition tweet_text :: "env \<Rightarrow> pyval accessor" where
  "tweet_text E = lazy_property ''text'' (reading (get_text E))"

definition tweet_type :: "env \<Rightarrow> pyval accessor" where
  "tweet_type E = lazy_property ''tweet_type'' (reading (get_tweet_type E))"

text \<open>\<open>def user_entered_text(self)\<close>\<close>

definition user_entered_text_fn :: "env \<Rightarrow> pyval accessor" where
  "user_entered_text_fn E =
     and_then (tweet_type E)
       (\<lambda>ty. if ty = PStr ''retweet'' then reading (\<lambda>self. Inr (PStr ''''))
             else reading (get_full_text E))"

definition user_entered_text :: "env \<Rightarrow> pyval accessor" where
  "user_entered_text E = lazy_property ''user_entered_text'' (user_entered_text_fn E)"

text \<open>\<open>def poll_options(self)\<close>, \<open>def quote_or_rt_text(self)\<close>, \<open>def all_text(self)\<close>\<close>

definition poll_options :: "env \<Rightarrow> pyval accessor" where
  "poll_options E = lazy_property ''poll_options'' (reading (get_poll_options E))"

definition quote_or_rt_text :: "env \<Rightarrow> pyval accessor" where
  "quote_or_rt_text E = lazy_property ''quote_or_rt_text'' (reading (get_quote_or_rt_text E))"

definition all_text :: "env \<Rightarrow> pyval accessor" where
  "all_text E = lazy_property ''all_text'' (reading (get_all_text E))"

subsection \<open>User, geo, links and entities\<close>

definition user_id :: "env \<Rightarrow> pyval accessor" where
  "user_id E = lazy_property ''user_id'' (reading (get_user_id E))"

definition screen_name :: "env \<Rightarrow> pyval accessor" where
  "screen_name E = lazy_property ''screen_name'' (reading (get_screen_name E))"

definition name :: "env \<Rightarrow> pyval accessor" where
  "name E = lazy_property ''name'' (reading (get_name E))"

definition klout_score :: "env \<Rightarrow> pyval accessor" where
  "klout_score E = lazy_property ''klout_score'' (reading (get_klout_score E))"

definition klout_profile :: "env \<Rightarrow> pyval accessor" where
  "klout_profile E = lazy_property ''klout_profile'' (reading (get_klout_profile E))"

definition klout_id :: "env \<Rightarrow> pyval accessor" where
  "klout_id E = lazy_property ''klout_id'' (reading (get_klout_id E))"

definition klout_influence_topics :: "env \<Rightarrow> pyval accessor" where
  "klout_influence_topics E =
     lazy_property ''klout_influence_topics''
       (reading (\<lambda>self. get_klout_topics E self ''influence''))"

definition klout_interest_topics :: "env \<Rightarrow> pyval accessor" where
  "klout_interest_topics E =
     lazy_property ''klout_interest_topics''
       (reading (\<lambda>self. get_klout_topics E self ''interest''))"

definition geo_coordinates :: "env \<Rightarrow> pyval accessor" where
  "geo_coordinates E = lazy_property ''geo_coordinates'' (reading (get_geo_coordinates E))"

definition profile_location :: "env \<Rightarrow> pyval accessor" where
  "profile_location E = lazy_property ''profile_location'' (reading (get_profile_location E))"

definition tweet_links :: "env \<Rightarrow> pyval accessor" where
  "tweet_links E = lazy_property ''tweet_links'' (reading (get_tweet_links E))"

definition most_unrolled_urls :: "env \<Rightarrow> pyval accessor" where
  "most_unrolled_urls E =
     lazy_property ''most_unrolled_urls'' (reading (get_most_unrolled_urls E))"

definition user_mentions :: "env \<Rightarrow> pyval accessor" where
  "user_mentions E = lazy_property ''user_mentions'' (reading (get_user_mentions E))"

definition quoted_user :: "env \<Rightarrow> pyval accessor" where
  "quoted_user E = lazy_property ''quoted_user'' (reading (get_quoted_user E))"

definition quoted_mentions :: "env \<Rightarrow> pyval accessor" where
  "quoted_mentions E = lazy_property ''quoted_mentions'' (reading (get_quoted_mentions E))"

definition hashtags :: "env \<Rightarrow> pyval accessor" where
  "hashtags E = lazy_property ''hashtags'' (reading (get_hashtags E))"

subsection \<open>Embedded Tweets\<close>

text \<open>
  \<open>def quote_tweet(self)\<close>, \<open>def retweet(self)\<close>, \<open>def embedded_tweet(self)\<close>. The nested
  Tweet is built by \<open>Tweet(payload)\<close>, so with \<open>do_format_validation=False\<close>; only a
  \<open>NotATweetError\<close> is caught, and \<open>format\<close> of it is its message. A body that falls
  through returns \<open>None\<close>.
\<close>

definition quote_tweet_fn :: "env \<Rightarrow> pyval accessor" where
  "quote_tweet_fn E self =
     (case get_quote_tweet E self of
        Inl e \<Rightarrow> (Inl e, self)
      | Inr None \<Rightarrow> (Inr PNone, self)
      | Inr (Some quote_tweet) \<Rightarrow>
          (case Tweet E quote_tweet False of
             Inr t \<Rightarrow> (Inr (PTweet t), self)
           | Inl (NotATweetError nate) \<Rightarrow>
               (Inl (NotATweetError
                  (''The quote-tweet payload appears malformed. Failed with '' @ [CHR 0x27]
                    @ nate @ [CHR 0x27])), self)
           | Inl e \<Rightarrow> (Inl e, self)))"

definition quote_tweet :: "env \<Rightarrow> pyval accessor" where
  "quote_tweet E = lazy_property ''quote_tweet'' (quote_tweet_fn E)"

definition retweet_fn :: "env \<Rightarrow> pyval accessor" where
  "retweet_fn E self =
     (case get_retweet E self of
        Inl e \<Rightarrow> (Inl e, self)
      | Inr None \<Rightarrow> (Inr PNone, self)
      | Inr (Some retweet) \<Rightarrow>
          (case Tweet E retweet False of
             Inr t \<Rightarrow> (Inr (PTweet t), self)
           | Inl (NotATweetError nate) \<Rightarrow>
               (Inl (NotATweetError
                  (''The retweet payload appears malformed. Failed with '' @ [CHR 0x27]
                    @ nate @ [CHR 0x27])), self)
           | Inl e \<Rightarrow> (Inl e, self)))"

definition retweet :: "env \<Rightarrow> pyval accessor" where
  "retweet E = lazy_property ''retweet'' (retweet_fn E)"

definition embedded_tweet_fn :: "env \<Rightarrow> pyval accessor" where
  "embedded_tweet_fn E self =
     (case get_embedded_tweet E self of
        Inl e \<Rightarrow> (Inl e, self)
      | Inr None \<Rightarrow> (Inr PNone, self)
      | Inr (Some embedded_tweet) \<Rightarrow>
          (case Tweet E embedded_tweet False of
             Inr t \<Rightarrow> (Inr (PTweet t), self)
           | Inl (NotATweetError nate) \<Rightarrow>
               (Inl (NotATweetError
                  (''The embedded tweet payload '' @ dict_str E embedded_tweet
                    @ '' appears malformed. \<newline>Failed with '' @ [CHR 0x27]
                    @ nate @ [CHR 0x27])), self)
           | Inl e \<Rightarrow> (Inl e, self)))"

definition embedded_tweet :: "env \<Rightarrow> pyval accessor" where
  "embedded_tweet E = lazy_property ''embedded_tweet'' (embedded_tweet_fn E)"

subsection \<open>Every accessor of the class\<close>

datatype accessor_name =
    A_id | A_created_at_seconds | A_created_at_datetime | A_created_at_string
  | A_user_id | A_screen_name | A_name
  | A_klout_score | A_klout_profile | A_klout_id
  | A_klout_influence_topics | A_klout_interest_topics
  | A_text | A_tweet_type | A_user_entered_text | A_poll_options
  | A_quote_or_rt_text | A_all_text
  | A_geo_coordinates | A_profile_location
  | A_tweet_links | A_most_unrolled_urls
  | A_user_mentions | A_quoted_user | A_quoted_mentions | A_hashtags
  | A_quote_tweet | A_retweet | A_embedded_tweet

fun call :: "env \<Rightarrow> accessor_name \<Rightarrow> pyval accessor" where
  "call E A_id = Tweet_id"
| "call E A_created_at_seconds = created_at_seconds"
| "call E A_created_at_datetime = created_at_datetime"
| "call E A_created_at_string = created_at_string"
| "call E A_user_id = user_id E"
| "call E A_screen_name = screen_name E"
| "call E A_name = name E"
| "call E A_klout_score = klout_score E"
| "call E A_klout_profile = klout_profile E"
| "call E A_klout_id = klout_id E"
| "call E A_klout_influence_topics = klout_influence_topics E"
| "call E A_klout_interest_topics = klout_interest_topics E"
| "call E A_text = tweet_text E"
| "call E A_tweet_type = tweet_type E"
| "call E A_user_entered_text = user_entered_text E"
| "call E A_poll_options = poll_options E"
| "call E A_quote_or_rt_text = quote_or_rt_text E"
| "call E A_all_text = all_text E"
| "call E A_geo_coordinates = geo_coordinates E"
| "call E A_profile_location = profile_location E"
| "call E A_tweet_links = tweet_links E"
| "call E A_most_unrolled_urls = most_unrolled_urls E"
| "call E A_user_mentions = user_mentions E"
| "call E A_quoted_user = quoted_user E"
| "call E A_quoted_mentions = quoted_mentions E"
| "call E A_hashtags = hashtags E"
| "call E A_quote_tweet = quote_tweet E"
| "call E A_retweet = retweet E"
| "call E A_embedded_tweet = embedded_tweet E"

text \<open>The object after a sequence of accessor reads, whatever each read returned or raised.\<close>

fun calls :: "env \<Rightarrow> accessor_name list \<Rightarrow> tweet \<Rightarrow> tweet" where
  "calls E [] self = self"
| "calls E (a # rest) self = calls E rest (snd (call E a self))"

text \<open>A computation that leaves the \<open>dict\<close> entries and the format attribute as they were.\<close>

definition keeps_dict :: "'a accessor \<Rightarrow> bool" where
  "keeps_dict m =
     (\<forall>self. items (snd (m self)) = items self
           \<and> original_format (snd (m self)) = original_format self)"

section \<open>Worked examples\<close>

text \<open>
  The theorems below hold for every environment. The examples need one: this section
  gives a sample classifier, sample getters and sample payloads.
\<close>

definition has_key :: "string \<Rightarrow> pydict \<Rightarrow> bool" where
  "has_key k d = (map_of d k \<noteq> None)"

text \<open>
  Modelled from the spec: \<open>tweet_checking.check_tweet\<close> is missing. A sample classifier
  for the worked examples, after section 4.1, 6 and the scenarios of section 8: a payload
  with an identifier and \<open>created_at\<close> is of the original format, one with an identifier
  and \<open>postedTime\<close> is an activity-streams payload, any other is not a Tweet; with strict
  validation the key of the posting user is expected as well.
\<close>

definition sample_check_tweet :: "pydict \<Rightarrow> bool \<Rightarrow> error + bool" where
  "sample_check_tweet d validation_checking =
     (if has_key ''id'' d \<and> has_key ''created_at'' d then
        (if validation_checking \<and> has_key ''user'' d = False
         then Inl (NotATweetError ''the original-format payload lacks expected keys'')
         else Inr True)
      else if has_key ''id'' d \<and> has_key ''postedTime'' d then
        (if validation_checking \<and> has_key ''actor'' d = False
         then Inl (NotATweetError ''the activity-streams payload lacks expected keys'')
         else Inr False)
      else Inl (NotATweetError ''the payload matches neither format''))"

text \<open>
  Sample getters, with the keys of Twitter's payloads: a nested payload is the \<open>dict\<close> under
  \<open>quoted_status\<close> or \<open>retweeted_status\<close>, the extended text is \<open>full_text\<close>, the short text
  is \<open>text\<close> or \<open>body\<close>, the option labels are the strings under \<open>poll_options\<close>. The getters
  that no example reads return \<open>None\<close>.
\<close>

definition nested_dict :: "string \<Rightarrow> pydict \<Rightarrow> pydict option" where
  "nested_dict k d = (case map_of d k of Some (JDict q) \<Rightarrow> Some q | _ \<Rightarrow> None)"

definition sample_embedded :: "pydict \<Rightarrow> pydict option" where
  "sample_embedded d =
     (case nested_dict ''quoted_status'' d of
        Some q \<Rightarrow> Some q
      | None \<Rightarrow> nested_dict ''retweeted_status'' d)"

definition sample_short_text :: "pydict \<Rightarrow> json option" where
  "sample_short_text d = (case map_of d ''text'' of Some x \<Rightarrow> Some x | None \<Rightarrow> map_of d ''body'')"

definition sample_poll_labels :: "pydict \<Rightarrow> string list option" where
  "sample_poll_labels d =
     (case map_of d ''poll_options'' of
        Some (JList xs) \<Rightarrow> Some (concat (map (\<lambda>x. case x of JStr s \<Rightarrow> [s] | _ \<Rightarrow> []) xs))
      | _ \<Rightarrow> None)"

definition sample_env :: env where
  "sample_env =
     \<lparr> check_tweet = sample_check_tweet,
       get_user_id = (\<lambda>self. Inr PNone),
       get_screen_name = (\<lambda>self. Inr PNone),
       get_name = (\<lambda>self. Inr PNone),
       get_klout_score = (\<lambda>self. Inr PNone),
       get_klout_profile = (\<lambda>self. Inr PNone),
       get_klout_id = (\<lambda>self. Inr PNone),
       get_klout_topics = (\<lambda>self topic_type. Inr PNone),
       get_text = (\<lambda>self. Inr PNone),
       get_quote_or_rt_text = (\<lambda>self. Inr PNone),
       get_all_text = (\<lambda>self. Inr PNone),
       get_geo_coordinates = (\<lambda>self. Inr PNone),
       get_profile_location = (\<lambda>self. Inr PNone),
       get_tweet_links = (\<lambda>self. Inr PNone),
       get_most_unrolled_urls = (\<lambda>self. Inr PNone),
       get_user_mentions = (\<lambda>self. Inr PNone),
       get_quoted_user = (\<lambda>self. Inr PNone),
       get_quoted_mentions = (\<lambda>self. Inr PNone),
       get_hashtags = (\<lambda>self. Inr PNone),
       get_quote_tweet = (\<lambda>self. Inr (nested_dict ''quoted_status'' (items self))),
       get_retweet = (\<lambda>self. Inr (nested_dict ''retweeted_status'' (items self))),
       get_embedded_tweet = (\<lambda>self. Inr (sample_embedded (items self))),
       dict_str = (\<lambda>d. ''{...}''),
       repost_marker = has_key ''retweeted_status'',
       quote_marker = has_key ''quoted_status'',
       extended_text = (\<lambda>d. map_of d ''full_text''),
       short_text = sample_short_text,
       poll_labels = sample_poll_labels \<rparr>"

text \<open>The two payloads of the docstring of \<open>Tweet.id\<close>, and the objects built from them.\<close>

definition original_payload :: pydict where
  "original_payload =
     [(''created_at'', JStr ''Wed May 24 20:17:19 +0000 2017''),
      (''id'', JInt 867474613139156993),
      (''id_str'', JStr ''867474613139156993''),
      (''user'', JDict [(''user_keys'', JStr ''user_data'')]),
      (''text'', JStr ''some tweet text'')]"

definition activity_payload :: pydict where
  "activity_payload =
     [(''postedTime'', JStr ''2017-05-24T20:17:19.000Z''),
      (''id'', JStr ''tag:search.twitter.com,2005:867474613139156993''),
      (''actor'', JDict [(''user_keys'', JStr ''user_data'')]),
      (''body'', JStr ''some tweet text'')]"

definition original_tweet :: tweet where
  "original_tweet = TweetObj (Some True) original_payload []"

definition activity_tweet :: tweet where
  "activity_tweet = TweetObj (Some False) activity_payload []"

text \<open>A payload with none of the keys that tell the formats apart.\<close>

definition unknown_payload :: pydict where
  "unknown_payload = [(''text'', JStr ''hello'')]"

text \<open>
  A quote Tweet whose nested payloads have no identifier, and one built with strict
  validation whose nested payload lacks the key that strict validation expects.
\<close>

definition malformed_nested :: pydict where
  "malformed_nested = [(''text'', JStr ''quoted'')]"

definition malformed_quote_payload :: pydict where
  "malformed_quote_payload =
     original_payload @
     [(''quoted_status'', JDict malformed_nested), (''retweeted_status'', JDict malformed_nested)]"

definition malformed_quote_tweet :: tweet where
  "malformed_quote_tweet = TweetObj (Some True) malformed_quote_payload []"

definition lenient_nested :: pydict where
  "lenient_nested =
     [(''created_at'', JStr ''Wed May 24 20:00:00 +0000 2017''),
      (''id'', JInt 867470000000000000),
      (''id_str'', JStr ''867470000000000000''),
      (''text'', JStr ''quoted'')]"

definition strict_quote_payload :: pydict where
  "strict_quote_payload =
     original_payload @
     [(''quoted_status'', JDict lenient_nested), (''retweeted_status'', JDict lenient_nested)]"

definition strict_quote_tweet :: tweet where
  "strict_quote_tweet = TweetObj (Some True) strict_quote_payload []"

text \<open>A Tweet of the original format whose text is empty, and one with a poll.\<close>

definition empty_text_payload :: pydict where
  "empty_text_payload =
     [(''created_at'', JStr ''Wed May 24 20:17:19 +0000 2017''),
      (''id'', JInt 867474613139156993),
      (''id_str'', JStr ''867474613139156993''),
      (''truncated'', JBool False),
      (''text'', JStr '''')]"

definition empty_text_tweet :: tweet where
  "empty_text_tweet = TweetObj (Some True) empty_text_payload []"

definition poll_payload :: pydict where
  "poll_payload = original_payload @ [(''poll_options'', JList [JStr ''yes'', JStr ''no''])]"

definition poll_tweet :: tweet where
  "poll_tweet = TweetObj (Some True) poll_payload []"

section \<open>Properties\<close>

text \<open>
  The theorems about an accessor are stated for a Tweet as the constructor returns it,
  so for the first read of the accessor. A later read returns the value of the first, and
  no read changes the entries or the format: both are proved below.
\<close>

subsection \<open>Builtins and construction\<close>

lemma str_split_not_Nil: "str_split c s \<noteq> []"
  by (induction s) (auto split: list.splits)

lemma str_split_length: "length (str_split c s) = Suc (length (filter (\<lambda>x. x = c) s))"
  by (induction s) (auto split: list.splits)

lemma str_split_no_sep: "c \<notin> set s \<Longrightarrow> str_split c s = [s]"
  by (induction s) (auto split: list.splits)

lemma last_str_split_no_sep: "c \<notin> set (last (str_split c s))"
  by (induction s) (auto split: list.splits simp: str_split_not_Nil)

lemma last_str_split_suffix: "c \<in> set s \<Longrightarrow> \<exists>p. s = p @ c # last (str_split c s)"
proof (induction s)
  case Nil
  then show ?case by simp
next
  case (Cons a s)
  show ?case
  proof (cases "a = c")
    case True
    show ?thesis
    proof (cases "c \<in> set s")
      case True
      then obtain p where "s = p @ c # last (str_split c s)" using Cons.IH by blast
      then have "a # s = (a # p) @ c # last (str_split c (a # s))"
        using \<open>a = c\<close> by (simp add: str_split_not_Nil)
      then show ?thesis by blast
    next
      case False
      then have "a # s = [] @ c # last (str_split c (a # s))"
        using \<open>a = c\<close> by (simp add: str_split_no_sep)
      then show ?thesis by blast
    qed
  next
    case False
    then have in_s: "c \<in> set s" using Cons.prems by auto
    then obtain p where p: "s = p @ c # last (str_split c s)" using Cons.IH by blast
    have "filter (\<lambda>x. x = c) s \<noteq> []" using in_s by (simp add: filter_empty_conv)
    then have "2 \<le> length (str_split c s)"
      by (cases "filter (\<lambda>x. x = c) s") (simp_all add: str_split_length)
    then obtain w w' ws where "str_split c s = w # w' # ws"
      by (cases "str_split c s"; cases "tl (str_split c s)") auto
    then have "last (str_split c (a # s)) = last (str_split c s)"
      using False by simp
    then have "a # s = (a # p) @ c # last (str_split c (a # s))" using p by simp
    then show ?thesis by blast
  qed
qed

lemma list_getitem_last: "xs \<noteq> [] \<Longrightarrow> list_getitem xs (- 1) = Inr (last xs)"
  by (cases xs rule: rev_cases) (auto simp: list_getitem_def nth_append)

lemma update_fresh: "k \<notin> fst ` set al \<Longrightarrow> AList.update k v al = al @ [(k, v)]"
  by (induction al) auto

lemma fold_update_distinct:
  "distinct (map fst (acc @ d)) \<Longrightarrow> fold (\<lambda>(k, v) a. AList.update k v a) d acc = acc @ d"
proof (induction d arbitrary: acc)
  case Nil
  then show ?case by simp
next
  case (Cons kv d)
  obtain k v where kv: "kv = (k, v)" by (cases kv)
  have fresh: "k \<notin> fst ` set acc" using Cons.prems kv by auto
  have "distinct (map fst ((acc @ [(k, v)]) @ d))" using Cons.prems kv by simp
  then have "fold (\<lambda>(k, v) a. AList.update k v a) d (acc @ [(k, v)]) = (acc @ [(k, v)]) @ d"
    by (rule Cons.IH)
  then show ?case using fresh kv by (simp add: update_fresh)
qed

lemma dict_update_empty: "distinct (map fst d) \<Longrightarrow> dict_update [] d = d"
  using fold_update_distinct [of "[]" d] by (simp add: dict_update_def)

lemma Tweet_Inr_iff:
  "Tweet E d v = Inr t \<longleftrightarrow> (\<exists>f. check_tweet E d v = Inr f \<and> t = TweetObj (Some f) (dict_update [] d) [])"
  by (auto simp: Tweet_def Tweet_init_def Tweet_new_def set_original_format_def set_items_def Let_def
      split: sum.splits)

lemma Tweet_Inl_iff: "Tweet E d v = Inl e \<longleftrightarrow> check_tweet E d v = Inl e"
  by (auto simp: Tweet_def Tweet_init_def Let_def split: sum.splits)

lemma fresh_tweet: "Tweet E d v = Inr t \<Longrightarrow> lazy_attrs t = []"
  by (auto simp: Tweet_Inr_iff)

subsection \<open>Lazy properties\<close>

lemma lazy_property_first:
  "map_of (lazy_attrs self) nm = None \<Longrightarrow> fst (lazy_property nm fn self) = fst (fn self)"
  by (auto simp: lazy_property_def split: prod.splits sum.splits)

lemma lazy_property_fresh: "lazy_attrs self = [] \<Longrightarrow> fst (lazy_property nm fn self) = fst (fn self)"
  by (simp add: lazy_property_first)

lemma lazy_property_again:
  assumes "lazy_property nm fn self = (Inr v, self')"
  shows "lazy_property nm fn self' = (Inr v, self')"
proof (cases "map_of (lazy_attrs self) nm")
  case None
  then obtain s1 where "fn self = (Inr v, s1)" and s': "self' = set_lazy_attr nm v s1"
    using assms by (auto simp: lazy_property_def split: prod.splits sum.splits)
  have "map_of (lazy_attrs self') nm = Some v"
    by (simp add: s' set_lazy_attr_def update_conv')
  then show ?thesis by (simp add: lazy_property_def)
next
  case (Some w)
  then show ?thesis using assms by (auto simp: lazy_property_def)
qed

lemma and_then_reading_fst:
  "fst (and_then m (\<lambda>x. reading (\<lambda>self. g x)) self) = (case fst (m self) of Inl e \<Rightarrow> Inl e | Inr x \<Rightarrow> g x)"
  by (simp add: and_then_def reading_def split: prod.splits sum.splits)

lemma keeps_dict_reading: "keeps_dict (reading g)"
  by (simp add: keeps_dict_def reading_def)

lemma keeps_dict_and_then:
  assumes "keeps_dict m" and "\<And>x. keeps_dict (f x)"
  shows "keeps_dict (and_then m f)"
  using assms by (auto simp: keeps_dict_def and_then_def split: prod.splits sum.splits)
    (metis snd_conv)+

lemma keeps_dict_lazy_property:
  assumes "keeps_dict fn"
  shows "keeps_dict (lazy_property nm fn)"
  using assms
  by (auto simp: keeps_dict_def lazy_property_def set_lazy_attr_def split: option.splits prod.splits sum.splits)
    (metis snd_conv)+

subsection \<open>The sample Tweets\<close>

lemmas sample_defs = sample_env_def sample_check_tweet_def has_key_def nested_dict_def
  sample_embedded_def sample_short_text_def sample_poll_labels_def

lemmas construct_defs = Tweet_def Tweet_init_def Tweet_new_def set_original_format_def
  set_items_def dict_update_def

lemma sample_original: "Tweet sample_env original_payload False = Inr original_tweet"
  by (simp add: Tweet_def Tweet_init_def Tweet_new_def set_original_format_def set_items_def
      sample_env_def sample_check_tweet_def has_key_def original_payload_def
      original_tweet_def dict_update_def)

lemma sample_activity: "Tweet sample_env activity_payload False = Inr activity_tweet"
  by (simp add: Tweet_def Tweet_init_def Tweet_new_def set_original_format_def set_items_def
      sample_env_def sample_check_tweet_def has_key_def activity_payload_def
      activity_tweet_def dict_update_def)

lemma sample_malformed_quote:
  "Tweet sample_env malformed_quote_payload False = Inr malformed_quote_tweet"
  by (simp add: construct_defs sample_defs malformed_quote_payload_def original_payload_def
      malformed_quote_tweet_def)

lemma sample_strict_quote:
  "Tweet sample_env strict_quote_payload True = Inr strict_quote_tweet"
  by (simp add: construct_defs sample_defs strict_quote_payload_def original_payload_def
      strict_quote_tweet_def)

lemma sample_poll: "Tweet sample_env poll_payload False = Inr poll_tweet"
  by (simp add: construct_defs sample_defs poll_payload_def original_payload_def poll_tweet_def)

lemma sample_empty_text: "Tweet sample_env empty_text_payload False = Inr empty_text_tweet"
  by (simp add: construct_defs sample_defs empty_text_payload_def empty_text_tweet_def)

subsection \<open>The identifier\<close>

text \<open>
  C1: for a Tweet built from a payload of the original format, \<open>id\<close> is the value under
  \<open>id_str\<close>, as it stands; for one built from an activity-streams payload whose \<open>id\<close> is a
  string, \<open>id\<close> is what follows the last colon of that string (the whole string when it
  has no colon).
\<close>

theorem id_of_constructed_tweet:
  assumes "distinct (map fst d)" and "Tweet E d v = Inr t"
  shows "(original_format t = Some True \<longrightarrow>
            (\<forall>x. map_of d ''id_str'' = Some x \<longrightarrow> fst (Tweet_id t) = Inr (PJson x)))
       \<and> (original_format t = Some False \<longrightarrow>
            (\<forall>s. map_of d ''id'' = Some (JStr s) \<longrightarrow>
               (\<exists>r. fst (Tweet_id t) = Inr (PStr r) \<and> CHR '':'' \<notin> set r
                  \<and> (CHR '':'' \<in> set s \<longrightarrow> (\<exists>p. s = p @ CHR '':'' # r))
                  \<and> (CHR '':'' \<notin> set s \<longrightarrow> r = s))))"
proof -
  from assms obtain f where t: "t = TweetObj (Some f) d []"
    by (auto simp: Tweet_Inr_iff dict_update_empty)
  have first: "fst (Tweet_id t) = fst (id_fn t)"
    unfolding Tweet_id_def by (rule lazy_property_first) (simp add: t)
  have orig: "fst (id_fn t) = Inr (PJson x)" if "f" "map_of d ''id_str'' = Some x" for x
    using that by (simp add: id_fn_def t getitem_def)
  have act: "\<exists>r. fst (id_fn t) = Inr (PStr r) \<and> CHR '':'' \<notin> set r
                  \<and> (CHR '':'' \<in> set s \<longrightarrow> (\<exists>p. s = p @ CHR '':'' # r))
                  \<and> (CHR '':'' \<notin> set s \<longrightarrow> r = s)"
    if "\<not> f" "map_of d ''id'' = Some (JStr s)" for s
  proof -
    have "fst (id_fn t) = Inr (PStr (last (str_split (CHR '':'') s)))"
      using that by (simp add: id_fn_def t getitem_def list_getitem_last str_split_not_Nil)
    moreover have "CHR '':'' \<notin> set (last (str_split (CHR '':'') s))"
      by (rule last_str_split_no_sep)
    moreover have "CHR '':'' \<in> set s \<longrightarrow> (\<exists>p. s = p @ CHR '':'' # last (str_split (CHR '':'') s))"
      using last_str_split_suffix by blast
    moreover have "CHR '':'' \<notin> set s \<longrightarrow> last (str_split (CHR '':'') s) = s"
      by (simp add: str_split_no_sep)
    ultimately show ?thesis by blast
  qed
  have fmt: "original_format t = Some f" by (simp add: t)
  show ?thesis unfolding first fmt using orig act by auto
qed

theorem id_of_constructed_tweet_witness:
  "distinct (map fst original_payload)
   \<and> Tweet sample_env original_payload False = Inr original_tweet
   \<and> original_format original_tweet = Some True
   \<and> map_of original_payload ''id_str'' = Some (JStr ''867474613139156993'')
   \<and> fst (Tweet_id original_tweet) = Inr (PStr ''867474613139156993'')"
proof -
  have d: "distinct (map fst original_payload)" by (simp add: original_payload_def)
  have f: "original_format original_tweet = Some True" by (simp add: original_tweet_def)
  have k: "map_of original_payload ''id_str'' = Some (JStr ''867474613139156993'')"
    by (simp add: original_payload_def)
  from id_of_constructed_tweet [OF d sample_original] f k
  have "fst (Tweet_id original_tweet) = Inr (PStr ''867474613139156993'')" by blast
  with d f k sample_original show ?thesis by blast
qed

subsection \<open>Construction\<close>

text \<open>
  C6: when the classifier rejects the payload with a \<open>NotATweetError\<close>, the call of the
  class raises that error, no object is returned, and \<open>__init__\<close> has assigned nothing to
  the object it was given; a Tweet that the call returns carries the format that the
  classifier gave.
\<close>

theorem rejected_payload_builds_no_tweet:
  "(\<forall>m. check_tweet E d v = Inl (NotATweetError m) \<longrightarrow>
        Tweet E d v = Inl (NotATweetError m) \<and> snd (Tweet_init E d v self) = self)
   \<and> (\<forall>t. Tweet E d v = Inr t \<longrightarrow> (\<exists>f. check_tweet E d v = Inr f \<and> original_format t = Some f))"
  by (auto simp: Tweet_Inl_iff Tweet_Inr_iff Tweet_init_def)

theorem rejected_payload_builds_no_tweet_witness:
  "check_tweet sample_env unknown_payload False = Inl (NotATweetError ''the payload matches neither format'')
   \<and> Tweet sample_env unknown_payload False = Inl (NotATweetError ''the payload matches neither format'')
   \<and> snd (Tweet_init sample_env unknown_payload False Tweet_new) = Tweet_new
   \<and> Tweet sample_env original_payload False = Inr original_tweet
   \<and> check_tweet sample_env original_payload False = Inr True
   \<and> original_format original_tweet = Some True"
proof -
  have c: "check_tweet sample_env unknown_payload False
             = Inl (NotATweetError ''the payload matches neither format'')"
    by (simp add: sample_defs unknown_payload_def)
  have o: "check_tweet sample_env original_payload False = Inr True"
    by (simp add: sample_defs original_payload_def)
  from rejected_payload_builds_no_tweet [of sample_env unknown_payload False Tweet_new] c
  have 1: "Tweet sample_env unknown_payload False = Inl (NotATweetError ''the payload matches neither format'')
           \<and> snd (Tweet_init sample_env unknown_payload False Tweet_new) = Tweet_new"
    by blast
  from rejected_payload_builds_no_tweet [of sample_env original_payload False Tweet_new] sample_original o
  have 2: "original_format original_tweet = Some True" by auto
  from c o 1 2 sample_original show ?thesis by blast
qed

subsection \<open>Timestamps\<close>

text \<open>
  C2: on a Tweet whose \<open>id\<close> is a string of digits, \<open>created_at_seconds\<close> is the numeric
  value of the identifier shifted right by 22 bits (divided by \<open>2 ^ 22\<close>), plus
  1288834974657, divided by 1000 and truncated; for the identifier 867474613139156993 it
  is 1495657039.
\<close>

lemma snowflake_example: "(int_of_digits ''867474613139156993'' div 2 ^ 22 + 1288834974657) div 1000 = 1495657039"
  by (simp add: int_of_digits_def)

theorem created_at_seconds_decodes_snowflake:
  assumes "Tweet E d v = Inr t" and "fst (Tweet_id t) = Inr (PStr s)"
    and "s \<noteq> []" and "list_all is_digit s"
  shows "fst (created_at_seconds t)
           = Inr (PInt ((int_of_digits s div 2 ^ 22 + 1288834974657) div 1000))
       \<and> (s = ''867474613139156993'' \<longrightarrow> fst (created_at_seconds t) = Inr (PInt 1495657039))"
proof -
  have fresh: "lazy_attrs t = []" using assms(1) by (rule fresh_tweet)
  have "fst (created_at_seconds t) = snowflake2utc (PStr s)"
    using fresh assms(2)
    by (simp add: created_at_seconds_def lazy_property_fresh created_at_seconds_fn_def
        and_then_reading_fst)
  then have 1: "fst (created_at_seconds t)
           = Inr (PInt ((int_of_digits s div 2 ^ 22 + 1288834974657) div 1000))"
    using assms(3,4) by (simp add: snowflake2utc_def)
  then show ?thesis using snowflake_example by simp
qed

theorem created_at_seconds_decodes_snowflake_witness:
  "Tweet sample_env original_payload False = Inr original_tweet
   \<and> fst (Tweet_id original_tweet) = Inr (PStr ''867474613139156993'')
   \<and> list_all is_digit ''867474613139156993''
   \<and> fst (created_at_seconds original_tweet) = Inr (PInt 1495657039)"
proof -
  have i: "fst (Tweet_id original_tweet) = Inr (PStr ''867474613139156993'')"
    by (simp add: Tweet_id_def lazy_property_def id_fn_def getitem_def original_tweet_def
        original_payload_def)
  have n: "''867474613139156993'' \<noteq> []" by simp
  have g: "list_all is_digit ''867474613139156993''" by (simp add: is_digit_def)
  from created_at_seconds_decodes_snowflake [OF sample_original i n g]
  have "fst (created_at_seconds original_tweet) = Inr (PInt 1495657039)" by blast
  with i g sample_original show ?thesis by blast
qed

text \<open>
  C3: the Tweet of the docstring was posted at 2017-05-24 20:17:19. \<open>created_at_string\<close>
  returns \<open>2017-17-24T20:17:19.000Z\<close>: the format string of the source has the minute
  directive \<open>%M\<close> where the month belongs. With the month directive \<open>%m\<close> in that place
  the same \<open>datetime\<close> gives \<open>2017-05-24T20:17:19.000Z\<close>.
\<close>

theorem created_at_string_has_minute_for_month:
  "fst (created_at_datetime original_tweet) = Inr (PDatetime (Datetime 2017 5 24 20 17 19))
   \<and> fst (created_at_string original_tweet) = Inr (PStr ''2017-17-24T20:17:19.000Z'')
   \<and> strftime (PDatetime (Datetime 2017 5 24 20 17 19)) ''%Y-%m-%dT%H:%M:%S.000Z''
       = Inr (PStr ''2017-05-24T20:17:19.000Z'')"
proof -
  have 1: "fst (created_at_datetime original_tweet) = Inr (PDatetime (Datetime 2017 5 24 20 17 19))"
    by code_simp
  have 2: "fst (created_at_string original_tweet) = Inr (PStr ''2017-17-24T20:17:19.000Z'')"
    by code_simp
  have 3: "strftime (PDatetime (Datetime 2017 5 24 20 17 19)) ''%Y-%m-%dT%H:%M:%S.000Z''
       = Inr (PStr ''2017-05-24T20:17:19.000Z'')"
    by (simp add: strftime_def strftime_directive_def pad2_def)
  from 1 2 3 show ?thesis by blast
qed

text \<open>
  For every Tweet with a creation \<open>datetime\<close>, \<open>created_at_string\<close> is the year, the
  minute, the day, then hour, minute and second: the minute stands where the month is
  expected, for every Tweet and not only for the example above.
\<close>

theorem created_at_string_layout:
  assumes "Tweet E d v = Inr t" and "fst (created_at_datetime t) = Inr (PDatetime dt)"
  shows "fst (created_at_string t)
           = Inr (PStr (show_nat (nat (year dt)) @ ''-'' @ pad2 (minute dt) @ ''-'' @ pad2 (day dt)
                        @ ''T'' @ pad2 (hour dt) @ '':'' @ pad2 (minute dt) @ '':''
                        @ pad2 (second dt) @ ''.000Z''))"
proof -
  have fresh: "lazy_attrs t = []" using assms(1) by (rule fresh_tweet)
  have "fst (created_at_string t) = strftime (PDatetime dt) ''%Y-%M-%dT%H:%M:%S.000Z''"
    using fresh assms(2)
    by (simp add: created_at_string_def lazy_property_fresh created_at_string_fn_def
        and_then_reading_fst)
  then show ?thesis by (simp add: strftime_def strftime_directive_def)
qed

theorem created_at_string_layout_witness:
  "Tweet sample_env activity_payload False = Inr activity_tweet
   \<and> fst (created_at_datetime activity_tweet) = Inr (PDatetime (Datetime 2017 5 24 20 17 19))
   \<and> fst (created_at_string activity_tweet) = Inr (PStr ''2017-17-24T20:17:19.000Z'')"
proof -
  have dt: "fst (created_at_datetime activity_tweet) = Inr (PDatetime (Datetime 2017 5 24 20 17 19))"
    by code_simp
  have "fst (created_at_string activity_tweet)
          = Inr (PStr (show_nat (nat 2017) @ ''-'' @ pad2 17 @ ''-'' @ pad2 24
                        @ ''T'' @ pad2 20 @ '':'' @ pad2 17 @ '':'' @ pad2 19 @ ''.000Z''))"
    using created_at_string_layout [OF sample_activity dt] by simp
  then have "fst (created_at_string activity_tweet) = Inr (PStr ''2017-17-24T20:17:19.000Z'')"
    by (simp add: pad2_def)
  with dt sample_activity show ?thesis by blast
qed

subsection \<open>Poll options\<close>

text \<open>
  C8: on a Tweet of the activity-streams format \<open>poll_options\<close> raises
  \<open>NotAvailableError\<close>; on a Tweet of the original format it returns the list of the option
  labels when the payload has a poll substructure, and the empty list when it has none.
\<close>

theorem poll_options_by_format:
  assumes "Tweet E d v = Inr t"
  shows "(original_format t = Some False \<longrightarrow> fst (poll_options E t) = Inl NotAvailableError)
       \<and> (original_format t = Some True \<longrightarrow>
            (\<forall>labels. poll_labels E (items t) = Some labels \<longrightarrow>
               fst (poll_options E t) = Inr (PJson (JList (map JStr labels))))
            \<and> (poll_labels E (items t) = None \<longrightarrow> fst (poll_options E t) = Inr (PJson (JList []))))"
  using fresh_tweet [OF assms]
  by (simp add: poll_options_def lazy_property_fresh reading_def get_poll_options_def)

theorem poll_options_by_format_witness:
  "Tweet sample_env activity_payload False = Inr activity_tweet
   \<and> original_format activity_tweet = Some False
   \<and> fst (poll_options sample_env activity_tweet) = Inl NotAvailableError
   \<and> Tweet sample_env poll_payload False = Inr poll_tweet
   \<and> original_format poll_tweet = Some True
   \<and> poll_labels sample_env (items poll_tweet) = Some [''yes'', ''no'']
   \<and> fst (poll_options sample_env poll_tweet) = Inr (PJson (JList [JStr ''yes'', JStr ''no'']))
   \<and> Tweet sample_env original_payload False = Inr original_tweet
   \<and> original_format original_tweet = Some True
   \<and> poll_labels sample_env (items original_tweet) = None
   \<and> fst (poll_options sample_env original_tweet) = Inr (PJson (JList []))"
proof -
  have a: "original_format activity_tweet = Some False" by (simp add: activity_tweet_def)
  have p: "original_format poll_tweet = Some True" by (simp add: poll_tweet_def)
  have o: "original_format original_tweet = Some True" by (simp add: original_tweet_def)
  have pl: "poll_labels sample_env (items poll_tweet) = Some [''yes'', ''no'']"
    by (simp add: sample_defs poll_tweet_def poll_payload_def original_payload_def)
  have ol: "poll_labels sample_env (items original_tweet) = None"
    by (simp add: sample_defs original_tweet_def original_payload_def)
  from poll_options_by_format [OF sample_activity] a
  have 1: "fst (poll_options sample_env activity_tweet) = Inl NotAvailableError" by blast
  from poll_options_by_format [OF sample_poll] p pl
  have 2: "fst (poll_options sample_env poll_tweet) = Inr (PJson (JList [JStr ''yes'', JStr ''no'']))"
    by auto
  from poll_options_by_format [OF sample_original] o ol
  have 3: "fst (poll_options sample_env original_tweet) = Inr (PJson (JList []))" by blast
  from a p o pl ol 1 2 3 sample_activity sample_poll sample_original show ?thesis by blast
qed

subsection \<open>Embedded Tweets\<close>

text \<open>
  C7: on a Tweet for which the getter finds no nested payload, \<open>quote_tweet\<close>, \<open>retweet\<close>
  and \<open>embedded_tweet\<close> return \<open>None\<close>; no exception is raised.
\<close>

theorem absent_embedded_payload_is_None:
  assumes "Tweet E d v = Inr t"
  shows "(get_quote_tweet E t = Inr None \<longrightarrow> fst (quote_tweet E t) = Inr PNone)
       \<and> (get_retweet E t = Inr None \<longrightarrow> fst (retweet E t) = Inr PNone)
       \<and> (get_embedded_tweet E t = Inr None \<longrightarrow> fst (embedded_tweet E t) = Inr PNone)"
  using fresh_tweet [OF assms]
  by (simp add: quote_tweet_def retweet_def embedded_tweet_def lazy_property_fresh
      quote_tweet_fn_def retweet_fn_def embedded_tweet_fn_def)

theorem absent_embedded_payload_is_None_witness:
  "Tweet sample_env original_payload False = Inr original_tweet
   \<and> get_quote_tweet sample_env original_tweet = Inr None
   \<and> get_retweet sample_env original_tweet = Inr None
   \<and> get_embedded_tweet sample_env original_tweet = Inr None
   \<and> fst (quote_tweet sample_env original_tweet) = Inr PNone
   \<and> fst (retweet sample_env original_tweet) = Inr PNone
   \<and> fst (embedded_tweet sample_env original_tweet) = Inr PNone"
proof -
  have q: "get_quote_tweet sample_env original_tweet = Inr None"
    by (simp add: sample_defs original_tweet_def original_payload_def)
  have r: "get_retweet sample_env original_tweet = Inr None"
    by (simp add: sample_defs original_tweet_def original_payload_def)
  have e: "get_embedded_tweet sample_env original_tweet = Inr None"
    by (simp add: sample_defs original_tweet_def original_payload_def)
  from absent_embedded_payload_is_None [OF sample_original] q r e sample_original
  show ?thesis by blast
qed

text \<open>
  C5: when the nested payload fails classification with a \<open>NotATweetError\<close>, each of
  \<open>quote_tweet\<close>, \<open>retweet\<close> and \<open>embedded_tweet\<close> raises a \<open>NotATweetError\<close> whose message
  names the embedding (quote-tweet, retweet, embedded tweet) and holds the message of the
  inner error between quotes; it is never the inner error itself.
\<close>

theorem nested_failure_is_wrapped:
  assumes "Tweet E d v = Inr t" and "check_tweet E q False = Inl (NotATweetError m)"
  shows "(get_quote_tweet E t = Inr (Some q) \<longrightarrow>
            fst (quote_tweet E t) = Inl (NotATweetError
              (''The quote-tweet payload appears malformed. Failed with '' @ [CHR 0x27] @ m @ [CHR 0x27]))
            \<and> fst (quote_tweet E t) \<noteq> Inl (NotATweetError m))
       \<and> (get_retweet E t = Inr (Some q) \<longrightarrow>
            fst (retweet E t) = Inl (NotATweetError
              (''The retweet payload appears malformed. Failed with '' @ [CHR 0x27] @ m @ [CHR 0x27]))
            \<and> fst (retweet E t) \<noteq> Inl (NotATweetError m))
       \<and> (get_embedded_tweet E t = Inr (Some q) \<longrightarrow>
            fst (embedded_tweet E t) = Inl (NotATweetError
              (''The embedded tweet payload '' @ dict_str E q
                @ '' appears malformed. \<newline>Failed with '' @ [CHR 0x27] @ m @ [CHR 0x27]))
            \<and> fst (embedded_tweet E t) \<noteq> Inl (NotATweetError m))"
proof -
  have fresh: "lazy_attrs t = []" using assms(1) by (rule fresh_tweet)
  have inner: "Tweet E q False = Inl (NotATweetError m)"
    using assms(2) by (simp add: Tweet_Inl_iff)
  have longer: "pre @ [CHR 0x27] @ m @ [CHR 0x27] \<noteq> m" for pre :: string
  proof
    assume "pre @ [CHR 0x27] @ m @ [CHR 0x27] = m"
    then have "length (pre @ [CHR 0x27] @ m @ [CHR 0x27]) = length m" by simp
    then show False by simp
  qed
  have quote: "fst (quote_tweet E t) = Inl (NotATweetError
        (''The quote-tweet payload appears malformed. Failed with '' @ [CHR 0x27] @ m @ [CHR 0x27]))"
    if "get_quote_tweet E t = Inr (Some q)"
    using that fresh inner by (simp add: quote_tweet_def lazy_property_fresh quote_tweet_fn_def)
  have rt: "fst (retweet E t) = Inl (NotATweetError
        (''The retweet payload appears malformed. Failed with '' @ [CHR 0x27] @ m @ [CHR 0x27]))"
    if "get_retweet E t = Inr (Some q)"
    using that fresh inner by (simp add: retweet_def lazy_property_fresh retweet_fn_def)
  have emb: "fst (embedded_tweet E t) = Inl (NotATweetError
        (''The embedded tweet payload '' @ dict_str E q
          @ '' appears malformed. \<newline>Failed with '' @ [CHR 0x27] @ m @ [CHR 0x27]))"
    if "get_embedded_tweet E t = Inr (Some q)"
    using that fresh inner by (simp add: embedded_tweet_def lazy_property_fresh embedded_tweet_fn_def)
  have 1: "Inl (NotATweetError
        (''The quote-tweet payload appears malformed. Failed with '' @ [CHR 0x27] @ m @ [CHR 0x27]))
        \<noteq> (Inl (NotATweetError m) :: error + pyval)"
    using longer [of "''The quote-tweet payload appears malformed. Failed with ''"] by simp
  have 2: "Inl (NotATweetError
        (''The retweet payload appears malformed. Failed with '' @ [CHR 0x27] @ m @ [CHR 0x27]))
        \<noteq> (Inl (NotATweetError m) :: error + pyval)"
    using longer [of "''The retweet payload appears malformed. Failed with ''"] by simp
  have 3: "Inl (NotATweetError
        (''The embedded tweet payload '' @ dict_str E q
          @ '' appears malformed. \<newline>Failed with '' @ [CHR 0x27] @ m @ [CHR 0x27]))
        \<noteq> (Inl (NotATweetError m) :: error + pyval)"
    using longer [of "''The embedded tweet payload '' @ dict_str E q
          @ '' appears malformed. \<newline>Failed with ''"] by simp
  show ?thesis using quote rt emb 1 2 3 by metis
qed

theorem nested_failure_is_wrapped_witness:
  "Tweet sample_env malformed_quote_payload False = Inr malformed_quote_tweet
   \<and> check_tweet sample_env malformed_nested False
       = Inl (NotATweetError ''the payload matches neither format'')
   \<and> get_quote_tweet sample_env malformed_quote_tweet = Inr (Some malformed_nested)
   \<and> get_retweet sample_env malformed_quote_tweet = Inr (Some malformed_nested)
   \<and> get_embedded_tweet sample_env malformed_quote_tweet = Inr (Some malformed_nested)
   \<and> fst (quote_tweet sample_env malformed_quote_tweet)
       = Inl (NotATweetError
          (''The quote-tweet payload appears malformed. Failed with '' @ [CHR 0x27]
            @ ''the payload matches neither format'' @ [CHR 0x27]))
   \<and> fst (retweet sample_env malformed_quote_tweet)
       = Inl (NotATweetError
          (''The retweet payload appears malformed. Failed with '' @ [CHR 0x27]
            @ ''the payload matches neither format'' @ [CHR 0x27]))
   \<and> fst (embedded_tweet sample_env malformed_quote_tweet)
       = Inl (NotATweetError
          (''The embedded tweet payload {...} appears malformed. \<newline>Failed with '' @ [CHR 0x27]
            @ ''the payload matches neither format'' @ [CHR 0x27]))"
proof -
  have c: "check_tweet sample_env malformed_nested False
       = Inl (NotATweetError ''the payload matches neither format'')"
    by (simp add: sample_defs malformed_nested_def)
  have q: "get_quote_tweet sample_env malformed_quote_tweet = Inr (Some malformed_nested)"
    by (simp add: sample_defs malformed_quote_tweet_def malformed_quote_payload_def original_payload_def)
  have r: "get_retweet sample_env malformed_quote_tweet = Inr (Some malformed_nested)"
    by (simp add: sample_defs malformed_quote_tweet_def malformed_quote_payload_def original_payload_def)
  have e: "get_embedded_tweet sample_env malformed_quote_tweet = Inr (Some malformed_nested)"
    by (simp add: sample_defs malformed_quote_tweet_def malformed_quote_payload_def original_payload_def)
  have s: "dict_str sample_env malformed_nested = ''{...}''" by (simp add: sample_env_def)
  from nested_failure_is_wrapped [OF sample_malformed_quote c] q r e s c sample_malformed_quote
  show ?thesis by simp
qed

text \<open>
  C9: whatever the validation flag the outer Tweet was built with, the nested Tweet is
  built without strict validation: the three accessors return the Tweet of the nested
  payload exactly when the classifier accepts that payload with the flag off, and raise
  when it rejects it with the flag off.
\<close>

theorem nested_construction_is_never_strict:
  assumes "Tweet E d v = Inr t"
  shows "(get_quote_tweet E t = Inr (Some q) \<longrightarrow>
            (\<forall>f. check_tweet E q False = Inr f \<longrightarrow>
               fst (quote_tweet E t) = Inr (PTweet (TweetObj (Some f) (dict_update [] q) [])))
            \<and> (\<forall>e. check_tweet E q False = Inl e \<longrightarrow> (\<exists>e'. fst (quote_tweet E t) = Inl e')))
       \<and> (get_retweet E t = Inr (Some q) \<longrightarrow>
            (\<forall>f. check_tweet E q False = Inr f \<longrightarrow>
               fst (retweet E t) = Inr (PTweet (TweetObj (Some f) (dict_update [] q) [])))
            \<and> (\<forall>e. check_tweet E q False = Inl e \<longrightarrow> (\<exists>e'. fst (retweet E t) = Inl e')))
       \<and> (get_embedded_tweet E t = Inr (Some q) \<longrightarrow>
            (\<forall>f. check_tweet E q False = Inr f \<longrightarrow>
               fst (embedded_tweet E t) = Inr (PTweet (TweetObj (Some f) (dict_update [] q) [])))
            \<and> (\<forall>e. check_tweet E q False = Inl e \<longrightarrow> (\<exists>e'. fst (embedded_tweet E t) = Inl e')))"
proof -
  have fresh: "lazy_attrs t = []" using assms by (rule fresh_tweet)
  have ok: "Tweet E q False = Inr (TweetObj (Some f) (dict_update [] q) [])"
    if "check_tweet E q False = Inr f" for f
    using that by (simp add: Tweet_Inr_iff)
  have bad: "Tweet E q False = Inl e" if "check_tweet E q False = Inl e" for e
    using that by (simp add: Tweet_Inl_iff)
  show ?thesis
    using fresh
    by (auto simp: quote_tweet_def retweet_def embedded_tweet_def lazy_property_fresh
        quote_tweet_fn_def retweet_fn_def embedded_tweet_fn_def ok bad split: error.splits)
qed

theorem nested_construction_is_never_strict_witness:
  "Tweet sample_env strict_quote_payload True = Inr strict_quote_tweet
   \<and> get_quote_tweet sample_env strict_quote_tweet = Inr (Some lenient_nested)
   \<and> get_retweet sample_env strict_quote_tweet = Inr (Some lenient_nested)
   \<and> get_embedded_tweet sample_env strict_quote_tweet = Inr (Some lenient_nested)
   \<and> check_tweet sample_env lenient_nested True
       = Inl (NotATweetError ''the original-format payload lacks expected keys'')
   \<and> check_tweet sample_env lenient_nested False = Inr True
   \<and> fst (quote_tweet sample_env strict_quote_tweet)
       = Inr (PTweet (TweetObj (Some True) lenient_nested []))
   \<and> fst (retweet sample_env strict_quote_tweet)
       = Inr (PTweet (TweetObj (Some True) lenient_nested []))
   \<and> fst (embedded_tweet sample_env strict_quote_tweet)
       = Inr (PTweet (TweetObj (Some True) lenient_nested []))"
proof -
  have q: "get_quote_tweet sample_env strict_quote_tweet = Inr (Some lenient_nested)"
    by (simp add: sample_defs strict_quote_tweet_def strict_quote_payload_def original_payload_def)
  have r: "get_retweet sample_env strict_quote_tweet = Inr (Some lenient_nested)"
    by (simp add: sample_defs strict_quote_tweet_def strict_quote_payload_def original_payload_def)
  have e: "get_embedded_tweet sample_env strict_quote_tweet = Inr (Some lenient_nested)"
    by (simp add: sample_defs strict_quote_tweet_def strict_quote_payload_def original_payload_def)
  have s: "check_tweet sample_env lenient_nested True
       = Inl (NotATweetError ''the original-format payload lacks expected keys'')"
    by (simp add: sample_defs lenient_nested_def)
  have l: "check_tweet sample_env lenient_nested False = Inr True"
    by (simp add: sample_defs lenient_nested_def)
  have u: "dict_update [] lenient_nested = lenient_nested"
    by (rule dict_update_empty) (simp add: lenient_nested_def)
  from nested_construction_is_never_strict [OF sample_strict_quote, of lenient_nested] q r e l
  have "fst (quote_tweet sample_env strict_quote_tweet)
          = Inr (PTweet (TweetObj (Some True) (dict_update [] lenient_nested) []))
      \<and> fst (retweet sample_env strict_quote_tweet)
          = Inr (PTweet (TweetObj (Some True) (dict_update [] lenient_nested) []))
      \<and> fst (embedded_tweet sample_env strict_quote_tweet)
          = Inr (PTweet (TweetObj (Some True) (dict_update [] lenient_nested) []))"
    by blast
  with q r e s l u sample_strict_quote show ?thesis by simp
qed

subsection \<open>The mapping entries\<close>

lemma keeps_dict_id_fn: "keeps_dict id_fn"
  by (simp add: keeps_dict_def id_fn_def split: option.splits bool.splits sum.splits json.splits)

lemma keeps_dict_quote_tweet_fn: "keeps_dict (quote_tweet_fn E)"
  by (simp add: keeps_dict_def quote_tweet_fn_def split: option.splits sum.splits error.splits)

lemma keeps_dict_retweet_fn: "keeps_dict (retweet_fn E)"
  by (simp add: keeps_dict_def retweet_fn_def split: option.splits sum.splits error.splits)

lemma keeps_dict_embedded_tweet_fn: "keeps_dict (embedded_tweet_fn E)"
  by (simp add: keeps_dict_def embedded_tweet_fn_def split: option.splits sum.splits error.splits)

lemma keeps_dict_Tweet_id: "keeps_dict Tweet_id"
  unfolding Tweet_id_def by (intro keeps_dict_lazy_property keeps_dict_id_fn)

lemma keeps_dict_created_at_seconds: "keeps_dict created_at_seconds"
  unfolding created_at_seconds_def created_at_seconds_fn_def
  by (intro keeps_dict_lazy_property keeps_dict_and_then keeps_dict_Tweet_id keeps_dict_reading)

lemma keeps_dict_created_at_datetime: "keeps_dict created_at_datetime"
  unfolding created_at_datetime_def created_at_datetime_fn_def
  by (intro keeps_dict_lazy_property keeps_dict_and_then keeps_dict_created_at_seconds
      keeps_dict_reading)

lemma keeps_dict_created_at_string: "keeps_dict created_at_string"
  unfolding created_at_string_def created_at_string_fn_def
  by (intro keeps_dict_lazy_property keeps_dict_and_then keeps_dict_created_at_datetime
      keeps_dict_reading)

lemma keeps_dict_tweet_type: "keeps_dict (tweet_type E)"
  unfolding tweet_type_def by (intro keeps_dict_lazy_property keeps_dict_reading)

lemma keeps_dict_user_entered_text: "keeps_dict (user_entered_text E)"
  unfolding user_entered_text_def user_entered_text_fn_def
  by (intro keeps_dict_lazy_property keeps_dict_and_then keeps_dict_tweet_type)
    (simp add: keeps_dict_reading)

lemma keeps_dict_call: "keeps_dict (call E a)"
proof (cases a)
  case A_id
  then show ?thesis by (simp add: keeps_dict_Tweet_id)
next
  case A_created_at_seconds
  then show ?thesis by (simp add: keeps_dict_created_at_seconds)
next
  case A_created_at_datetime
  then show ?thesis by (simp add: keeps_dict_created_at_datetime)
next
  case A_created_at_string
  then show ?thesis by (simp add: keeps_dict_created_at_string)
next
  case A_user_entered_text
  then show ?thesis by (simp add: keeps_dict_user_entered_text)
next
  case A_quote_tweet
  then show ?thesis
    by (simp add: quote_tweet_def keeps_dict_lazy_property keeps_dict_quote_tweet_fn)
next
  case A_retweet
  then show ?thesis
    by (simp add: retweet_def keeps_dict_lazy_property keeps_dict_retweet_fn)
next
  case A_embedded_tweet
  then show ?thesis
    by (simp add: embedded_tweet_def keeps_dict_lazy_property keeps_dict_embedded_tweet_fn)
qed (simp_all add: keeps_dict_lazy_property keeps_dict_reading
      user_id_def screen_name_def name_def klout_score_def klout_profile_def klout_id_def
      klout_influence_topics_def klout_interest_topics_def tweet_text_def tweet_type_def
      poll_options_def quote_or_rt_text_def all_text_def geo_coordinates_def
      profile_location_def tweet_links_def most_unrolled_urls_def user_mentions_def
      quoted_user_def quoted_mentions_def hashtags_def)

lemma items_calls: "items (calls E names self) = items self"
  using keeps_dict_call by (induction names arbitrary: self) (simp_all add: keeps_dict_def)

text \<open>
  C10: a Tweet built from a payload (a \<open>dict\<close>, so with distinct keys) has exactly the
  entries of the payload, and each is read by subscription; no read of an accessor, and no
  sequence of reads, changes the entries.
\<close>

theorem tweet_holds_the_payload_entries:
  "(distinct (map fst d) \<longrightarrow>
      (\<forall>t. Tweet E d v = Inr t \<longrightarrow>
         items t = d \<and> (\<forall>k x. (k, x) \<in> set d \<longrightarrow> getitem t k = Inr x)))
   \<and> items (snd (call E a self)) = items self
   \<and> items (calls E names self) = items self"
proof -
  have "items t = d \<and> (\<forall>k x. (k, x) \<in> set d \<longrightarrow> getitem t k = Inr x)"
    if dist: "distinct (map fst d)" and t: "Tweet E d v = Inr t" for t
  proof -
    have i: "items t = d" using t dist by (auto simp: Tweet_Inr_iff dict_update_empty)
    have "getitem t k = Inr x" if "(k, x) \<in> set d" for k x
      using that dist by (simp add: getitem_def i)
    with i show ?thesis by blast
  qed
  moreover have "items (snd (call E a self)) = items self"
    using keeps_dict_call [of E a] by (simp add: keeps_dict_def)
  ultimately show ?thesis using items_calls by blast
qed

theorem tweet_holds_the_payload_entries_witness:
  "distinct (map fst original_payload)
   \<and> Tweet sample_env original_payload False = Inr original_tweet
   \<and> items original_tweet = original_payload
   \<and> getitem original_tweet ''text'' = Inr (JStr ''some tweet text'')
   \<and> items (snd (call sample_env A_created_at_string original_tweet)) = original_payload
   \<and> items (calls sample_env [A_id, A_user_entered_text, A_quote_tweet] original_tweet)
       = original_payload"
proof -
  have d: "distinct (map fst original_payload)" by (simp add: original_payload_def)
  have m: "(''text'', JStr ''some tweet text'') \<in> set original_payload"
    by (simp add: original_payload_def)
  note inst = tweet_holds_the_payload_entries
    [of original_payload sample_env False A_created_at_string original_tweet
        "[A_id, A_user_entered_text, A_quote_tweet]"]
  from inst d sample_original have i: "items original_tweet = original_payload" by blast
  from inst d sample_original m have g: "getitem original_tweet ''text'' = Inr (JStr ''some tweet text'')"
    by blast
  from inst i have c: "items (snd (call sample_env A_created_at_string original_tweet)) = original_payload"
    by simp
  from inst i have s: "items (calls sample_env [A_id, A_user_entered_text, A_quote_tweet] original_tweet)
       = original_payload"
    by simp
  from d sample_original i g c s show ?thesis by blast
qed

text \<open>
  A read of an accessor that returned a value returns the same value when repeated, and
  the repeated read leaves the object as it is: the value is computed once.
\<close>

theorem accessor_is_memoized:
  assumes "call E a self = (Inr x, self')"
  shows "call E a self' = (Inr x, self')"
  using assms
  by (cases a)
    (simp_all add: Tweet_id_def created_at_seconds_def created_at_datetime_def
      created_at_string_def user_id_def screen_name_def name_def klout_score_def
      klout_profile_def klout_id_def klout_influence_topics_def klout_interest_topics_def
      tweet_text_def tweet_type_def user_entered_text_def poll_options_def
      quote_or_rt_text_def all_text_def geo_coordinates_def profile_location_def
      tweet_links_def most_unrolled_urls_def user_mentions_def quoted_user_def
      quoted_mentions_def hashtags_def quote_tweet_def retweet_def embedded_tweet_def
      lazy_property_again)

theorem accessor_is_memoized_witness:
  "call sample_env A_created_at_seconds original_tweet
     = (Inr (PInt 1495657039),
        TweetObj (Some True) original_payload
          [(''id'', PStr ''867474613139156993''), (''created_at_seconds'', PInt 1495657039)])
   \<and> call sample_env A_created_at_seconds
        (TweetObj (Some True) original_payload
          [(''id'', PStr ''867474613139156993''), (''created_at_seconds'', PInt 1495657039)])
     = (Inr (PInt 1495657039),
        TweetObj (Some True) original_payload
          [(''id'', PStr ''867474613139156993''), (''created_at_seconds'', PInt 1495657039)])"
proof -
  have 1: "call sample_env A_created_at_seconds original_tweet
     = (Inr (PInt 1495657039),
        TweetObj (Some True) original_payload
          [(''id'', PStr ''867474613139156993''), (''created_at_seconds'', PInt 1495657039)])"
    by code_simp
  from accessor_is_memoized [OF 1] 1 show ?thesis by blast
qed

subsection \<open>Text\<close>

lemma get_full_text_items: "items s = items t \<Longrightarrow> get_full_text E s = get_full_text E t"
  unfolding get_full_text_def by (erule subst) (rule refl)

lemma tweet_type_fresh:
  "lazy_attrs t = [] \<Longrightarrow> fst (tweet_type E t) = get_tweet_type E t"
  by (simp add: tweet_type_def lazy_property_fresh reading_def)

lemma user_entered_text_fresh:
  assumes "lazy_attrs t = []"
  shows "fst (user_entered_text E t)
           = (if get_tweet_type E t = Inr (PStr ''retweet'') then Inr (PStr '''')
              else get_full_text E t)"
proof -
  obtain ty where ty: "get_tweet_type E t = Inr (PStr ty)"
    by (simp add: get_tweet_type_def)
  have tt: "fst (tweet_type E t) = Inr (PStr ty)" using assms ty by (simp add: tweet_type_fresh)
  have it: "items (snd (tweet_type E t)) = items t"
    using keeps_dict_tweet_type [of E] by (simp add: keeps_dict_def)
  have "fst (user_entered_text_fn E t)
          = (if ty = ''retweet'' then Inr (PStr '''') else get_full_text E (snd (tweet_type E t)))"
    using tt by (cases "tweet_type E t") (simp add: user_entered_text_fn_def and_then_def reading_def)
  then show ?thesis
    using assms ty get_full_text_items [OF it, of E]
    by (simp add: user_entered_text_def lazy_property_fresh)
qed

text \<open>
  C4, as amended: \<open>tweet_type\<close> is one of \<open>tweet\<close>, \<open>quote\<close> and \<open>retweet\<close>; for a
  retweet \<open>user_entered_text\<close> is the empty string; otherwise it is the full text, the
  extended text field when the payload has one and else the short one. So it is empty
  exactly for a retweet or when that full text is itself empty.
\<close>

theorem user_entered_text_by_tweet_type:
  assumes "Tweet E d v = Inr t"
  shows "(\<exists>ty. fst (tweet_type E t) = Inr (PStr ty)
              \<and> (ty = ''tweet'' \<or> ty = ''quote'' \<or> ty = ''retweet''))
       \<and> (fst (tweet_type E t) = Inr (PStr ''retweet'') \<longrightarrow>
            fst (user_entered_text E t) = Inr (PStr ''''))
       \<and> (fst (tweet_type E t) \<noteq> Inr (PStr ''retweet'') \<longrightarrow>
            fst (user_entered_text E t) = get_full_text E t
            \<and> (\<forall>x. extended_text E (items t) = Some x \<longrightarrow>
                   fst (user_entered_text E t) = Inr (PJson x))
            \<and> (\<forall>x. extended_text E (items t) = None \<and> short_text E (items t) = Some x \<longrightarrow>
                   fst (user_entered_text E t) = Inr (PJson x)))
       \<and> (fst (user_entered_text E t) = Inr (PStr '''') \<longleftrightarrow>
            fst (tweet_type E t) = Inr (PStr ''retweet'') \<or> get_full_text E t = Inr (PStr ''''))"
proof -
  have fresh: "lazy_attrs t = []" using assms by (rule fresh_tweet)
  note tt = tweet_type_fresh [OF fresh, of E]
  note ut = user_entered_text_fresh [OF fresh, of E]
  have 1: "\<exists>ty. fst (tweet_type E t) = Inr (PStr ty)
              \<and> (ty = ''tweet'' \<or> ty = ''quote'' \<or> ty = ''retweet'')"
    by (simp add: tt get_tweet_type_def)
  have 2: "fst (tweet_type E t) = Inr (PStr ''retweet'') \<longrightarrow>
            fst (user_entered_text E t) = Inr (PStr '''')"
    by (simp add: tt ut)
  have 3: "fst (tweet_type E t) \<noteq> Inr (PStr ''retweet'') \<longrightarrow>
            fst (user_entered_text E t) = get_full_text E t
            \<and> (\<forall>x. extended_text E (items t) = Some x \<longrightarrow>
                   fst (user_entered_text E t) = Inr (PJson x))
            \<and> (\<forall>x. extended_text E (items t) = None \<and> short_text E (items t) = Some x \<longrightarrow>
                   fst (user_entered_text E t) = Inr (PJson x))"
    by (simp add: tt ut get_full_text_def)
  have 4: "fst (user_entered_text E t) = Inr (PStr '''') \<longleftrightarrow>
            fst (tweet_type E t) = Inr (PStr ''retweet'') \<or> get_full_text E t = Inr (PStr '''')"
    by (simp add: tt ut)
  from 1 2 3 4 show ?thesis by blast
qed

theorem user_entered_text_by_tweet_type_witness:
  "Tweet sample_env original_payload False = Inr original_tweet
   \<and> fst (tweet_type sample_env original_tweet) = Inr (PStr ''tweet'')
   \<and> extended_text sample_env (items original_tweet) = None
   \<and> short_text sample_env (items original_tweet) = Some (JStr ''some tweet text'')
   \<and> fst (user_entered_text sample_env original_tweet) = Inr (PStr ''some tweet text'')
   \<and> Tweet sample_env strict_quote_payload True = Inr strict_quote_tweet
   \<and> fst (tweet_type sample_env strict_quote_tweet) = Inr (PStr ''retweet'')
   \<and> fst (user_entered_text sample_env strict_quote_tweet) = Inr (PStr '''')"
proof -
  have ty1: "fst (tweet_type sample_env original_tweet) = Inr (PStr ''tweet'')"
    by (simp add: tweet_type_def lazy_property_def reading_def get_tweet_type_def sample_defs
        original_tweet_def original_payload_def)
  have e: "extended_text sample_env (items original_tweet) = None"
    by (simp add: sample_defs original_tweet_def original_payload_def)
  have s: "short_text sample_env (items original_tweet) = Some (JStr ''some tweet text'')"
    by (simp add: sample_defs original_tweet_def original_payload_def)
  have ty2: "fst (tweet_type sample_env strict_quote_tweet) = Inr (PStr ''retweet'')"
    by (simp add: tweet_type_def lazy_property_def reading_def get_tweet_type_def sample_defs
        strict_quote_tweet_def strict_quote_payload_def original_payload_def)
  have ne: "fst (tweet_type sample_env original_tweet) \<noteq> Inr (PStr ''retweet'')"
    using ty1 by simp
  from user_entered_text_by_tweet_type [OF sample_original] ne e s
  have 1: "fst (user_entered_text sample_env original_tweet) = Inr (PStr ''some tweet text'')"
    by blast
  from user_entered_text_by_tweet_type [OF sample_strict_quote] ty2
  have 2: "fst (user_entered_text sample_env strict_quote_tweet) = Inr (PStr '''')"
    by blast
  from ty1 e s ty2 1 2 sample_original sample_strict_quote show ?thesis by blast
qed

text \<open>
  C4, as stated, fails: a Tweet of type \<open>tweet\<close> whose text is empty has an empty
  \<open>user_entered_text\<close> and is no retweet.
\<close>

theorem empty_text_is_not_a_retweet:
  "Tweet sample_env empty_text_payload False = Inr empty_text_tweet
   \<and> fst (tweet_type sample_env empty_text_tweet) = Inr (PStr ''tweet'')
   \<and> fst (user_entered_text sample_env empty_text_tweet) = Inr (PStr '''')
   \<and> \<not> (fst (user_entered_text sample_env empty_text_tweet) = Inr (PStr '''')
          \<longleftrightarrow> fst (tweet_type sample_env empty_text_tweet) = Inr (PStr ''retweet''))"
proof -
  have ty: "fst (tweet_type sample_env empty_text_tweet) = Inr (PStr ''tweet'')"
    by code_simp
  have ut: "fst (user_entered_text sample_env empty_text_tweet) = Inr (PStr '''')"
    by code_simp
  from ty ut sample_empty_text show ?thesis by simp
qed

end
